theory Spec2Isabelle
  imports Complex_Main "HOL-Library.Sublist"
begin

section \<open>Python strings\<close>

text \<open>
  A Python \<open>str\<close> is a sequence of Unicode code points, and \<open>len\<close> counts code
  points.  The model therefore takes a string to be a list of code points (natural
  numbers); \<open>ascii\<close> embeds an ASCII literal of the source.
\<close>

type_synonym str = "nat list"

definition ascii :: "string \<Rightarrow> str" where
  "ascii s = map of_char s"

section \<open>Observable effects\<close>

text \<open>
  The program is sequential.  What it does to the outside world is recorded as a trace
  of events, in the order in which the calls are made: a call of
  \<open>bot.send_message\<close> with its text and whether it returned (\<open>True\<close>) or raised
  (\<open>False\<close>), a call of \<open>asyncio.sleep\<close> with its duration in seconds, and the two
  file writes (\<open>cache.json\<close>, \<open>failed_posts.json\<close>).  Lines written to the log
  file are not part of the model.
\<close>

record cache =
  cache_date :: str
  cache_titles :: "str list"

datatype event =
    SendMessage str bool
  | Sleep real
  | WriteCache cache
  | WriteFailed "str list"

text \<open>
  The content of \<open>failed_posts.json\<close> as \<open>DeliveryEngine.run\<close> reads it: the file
  does not exist, reading or parsing it raises, or it holds a JSON array of strings.
\<close>

datatype failed_store = Absent | Unreadable | Posts "str list"

record files =
  cache_file :: "cache option"
  failed_file :: failed_store

section \<open>Operations on strings\<close>

text \<open>The methods and operators of \<open>str\<close> that the program uses.\<close>

definition startswith :: "str \<Rightarrow> str \<Rightarrow> bool" where
  "startswith s p = (take (length p) s = p)"

text \<open>\<open>contains s sub\<close> is Python's \<open>sub in s\<close>.\<close>

fun contains :: "str \<Rightarrow> str \<Rightarrow> bool" where
  "contains [] sub = (sub = [])"
| "contains (c # cs) sub = (startswith (c # cs) sub \<or> contains cs sub)"

text \<open>\<open>any(w in s for w in ws)\<close>\<close>

definition contains_any :: "str \<Rightarrow> str list \<Rightarrow> bool" where
  "contains_any s ws = list_ex (contains s) ws"

definition is_upper :: "nat \<Rightarrow> bool" where
  "is_upper c = (65 \<le> c \<and> c \<le> 90)"

definition is_lower :: "nat \<Rightarrow> bool" where
  "is_lower c = (97 \<le> c \<and> c \<le> 122)"

definition ascii_lower :: "nat \<Rightarrow> nat" where
  "ascii_lower c = (if is_upper c then c + 32 else c)"

text \<open>
  \<open>str.title()\<close> on ASCII text, the only text the program applies it to (the names of
  \<open>KNOWN_COMPANIES\<close> and the verbs of \<open>enrich\<close>): a letter that follows a letter is
  lowered, any other letter is raised.
\<close>

fun title_from :: "bool \<Rightarrow> str \<Rightarrow> str" where
  "title_from prev [] = []"
| "title_from prev (c # cs) =
     (if is_lower c then (if prev then c else c - 32) # title_from True cs
      else if is_upper c then (if prev then c + 32 else c) # title_from True cs
      else c # title_from False cs)"

definition str_title :: "str \<Rightarrow> str" where
  "str_title s = title_from False s"

text \<open>The code points for which \<open>str.isspace()\<close> holds; \<open>strip\<close> and \<open>split\<close> use them.\<close>

definition is_space :: "nat \<Rightarrow> bool" where
  "is_space c = ((9 \<le> c \<and> c \<le> 13) \<or> (28 \<le> c \<and> c \<le> 32) \<or> c = 0x85 \<or> c = 0xA0
     \<or> c = 0x1680 \<or> (0x2000 \<le> c \<and> c \<le> 0x200A) \<or> c = 0x2028 \<or> c = 0x2029
     \<or> c = 0x202F \<or> c = 0x205F \<or> c = 0x3000)"

definition strip :: "str \<Rightarrow> str" where
  "strip s = rev (dropWhile is_space (rev (dropWhile is_space s)))"

text \<open>\<open>s.split()\<close>: the maximal runs of characters that are not white space.\<close>

fun split_ws :: "str \<Rightarrow> str \<Rightarrow> str list" where
  "split_ws cur [] = (if cur = [] then [] else [cur])"
| "split_ws cur (c # cs) =
     (if is_space c then (if cur = [] then split_ws [] cs else cur # split_ws [] cs)
      else split_ws (cur @ [c]) cs)"

text \<open>\<open>sep.join(xs)\<close>\<close>

fun join :: "str \<Rightarrow> str list \<Rightarrow> str" where
  "join sep [] = []"
| "join sep [x] = x"
| "join sep (x # y # ys) = x @ sep @ join sep (y # ys)"

section \<open>Library functions\<close>

text \<open>
  The functions of the standard library and of third-party packages whose results the
  program uses but whose code is not part of it.  They are functions of their
  arguments, and the model takes them as they are:
  \<^item> \<open>lib_lower\<close>: \<open>str.lower()\<close> on a string that holds a character outside ASCII
    (the Unicode case mapping); on ASCII text \<open>lower\<close> below computes the result;
  \<^item> \<open>lib_md5\<close>: the hexadecimal MD5 digest of the UTF-8 encoding of a string;
  \<^item> \<open>lib_re_search pat s\<close>: group 1 of \<open>re.search(pat, s)\<close>, \<open>None\<close> without a match;
  \<^item> \<open>lib_urljoin\<close>: \<open>urllib.parse.urljoin\<close>;
  \<^item> \<open>lib_urlparse\<close>: \<open>netloc\<close> and \<open>path\<close> of \<open>urlparse\<close>, \<open>None\<close> when it raises;
  \<^item> \<open>lib_float\<close>: \<open>float(s)\<close>, \<open>None\<close> when the text is no number or the number is
    not finite (then \<open>float\<close> or the later \<open>int\<close> raises);
  \<^item> \<open>lib_format_2f\<close>, \<open>lib_format_0f\<close>: the formats \<open>{:,.2f}\<close> and \<open>{:,.0f}\<close>;
  \<^item> \<open>lib_set_order xs\<close>: the elements of \<open>set(xs)\<close> in the order in which the
    interpreter iterates over that set.
  Prices are floating-point numbers in the program and real numbers here; no statement
  below depends on their value.
\<close>

record lib =
  lib_lower :: "str \<Rightarrow> str"
  lib_md5 :: "str \<Rightarrow> str"
  lib_re_search :: "str \<Rightarrow> str \<Rightarrow> str option"
  lib_urljoin :: "str \<Rightarrow> str \<Rightarrow> str"
  lib_urlparse :: "str \<Rightarrow> (str \<times> str) option"
  lib_float :: "str \<Rightarrow> real option"
  lib_format_2f :: "real \<Rightarrow> str"
  lib_format_0f :: "real \<Rightarrow> str"
  lib_set_order :: "str list \<Rightarrow> str list"

definition lower :: "lib \<Rightarrow> str \<Rightarrow> str" where
  "lower L s = (if list_all (\<lambda>c. c < 128) s then map ascii_lower s else lib_lower L s)"

section \<open>DiscoveryEngine: deduplication and fallback\<close>

text \<open>
  A candidate is a dictionary with the keys \<open>title\<close> and \<open>url\<close>; the entries of
  \<open>BACKUP_HEADLINES\<close> carry a third key, \<open>company\<close> (the field \<open>backup_company\<close>).
\<close>

record item =
  title :: str
  url :: str
  backup_company :: "str option"

definition candidate :: "str \<Rightarrow> str \<Rightarrow> item" where
  "candidate t u = \<lparr>title = t, url = u, backup_company = None\<rparr>"

definition backup_entry :: "string \<Rightarrow> string \<Rightarrow> string \<Rightarrow> item" where
  "backup_entry t u c = \<lparr>title = ascii t, url = ascii u, backup_company = Some (ascii c)\<rparr>"

definition BACKUP_HEADLINES :: "item list" where
  "BACKUP_HEADLINES =
    [backup_entry ''OpenAI Quietly Builds Next-Gen AI Infrastructure to Challenge Google''
       ''https://techcrunch.com/ai'' ''OpenAI'',
     backup_entry ''India's IT Giants Eye $50B AI Market Amid Global Tech Shifts''
       ''https://economictimes.com/tech'' ''Infosys'',
     backup_entry ''China's Baidu Turbo-Charges Dragon AI to Compete with ChatGPT''
       ''https://technode.com/ai'' ''Baidu'',
     backup_entry ''Meta Silently Fires 2,000 Engineers While Doubling AI Investment''
       ''https://theverge.com/meta'' ''Meta'',
     backup_entry ''Microsoft Replaces Human Customer Service with GPT-Powered Bots''
       ''https://venturebeat.com/ai'' ''Microsoft'',
     backup_entry ''Nvidia Explodes Past $2 Trillion Valuation on AI Chip Demand''
       ''https://wired.com/nvidia'' ''Nvidia'',
     backup_entry ''TCS Shuts Down Legacy Systems, Goes All-In on AI Automation''
       ''https://inc42.com/tcs'' ''TCS'',
     backup_entry ''Tesla's FSD AI Quietly Replaces Human Drivers in Beta Cities''
       ''https://futurism.com/tesla'' ''Tesla'']"

text \<open>
  \<open>hashlib.md5((itm["title"] + itm["url"]).encode()).hexdigest()\<close>.  The hash function
  belongs to the standard library, not to the program: \<open>md5\<close> stands for the function
  that takes a string to the hexadecimal MD5 digest of its UTF-8 encoding, and every
  function of the engine that hashes takes it as its first argument.
\<close>

definition content_hash :: "(str \<Rightarrow> str) \<Rightarrow> item \<Rightarrow> str" where
  "content_hash md5 itm = md5 (title itm @ url itm)"

record dedup_state =
  seen_title :: "str set"
  seen_url :: "str set"
  seen_hashes :: "str set"
  deduped :: "item list"

definition dedup_init :: dedup_state where
  "dedup_init = \<lparr>seen_title = {}, seen_url = {}, seen_hashes = {}, deduped = []\<rparr>"

text \<open>The loop \<open>for itm in pool\<close> of \<open>discover\<close>.\<close>

fun dedup_loop :: "(str \<Rightarrow> str) \<Rightarrow> item list \<Rightarrow> dedup_state \<Rightarrow> dedup_state" where
  "dedup_loop md5 [] st = st"
| "dedup_loop md5 (itm # pool) st =
     (if title itm \<in> seen_title st \<or> url itm \<in> seen_url st
         \<or> content_hash md5 itm \<in> seen_hashes st
      then dedup_loop md5 pool st
      else dedup_loop md5 pool
             \<lparr>seen_title = insert (title itm) (seen_title st),
              seen_url = insert (url itm) (seen_url st),
              seen_hashes = insert (content_hash md5 itm) (seen_hashes st),
              deduped = deduped st @ [itm]\<rparr>)"

text \<open>
  The loop \<open>for backup in BACKUP_HEADLINES\<close>: an entry is appended when its hash has
  not been seen, and the loop is left once the list holds ten entries.
\<close>

fun backup_loop :: "(str \<Rightarrow> str) \<Rightarrow> item list \<Rightarrow> dedup_state \<Rightarrow> dedup_state" where
  "backup_loop md5 [] st = st"
| "backup_loop md5 (backup # rest) st =
     (let st' = (if content_hash md5 backup \<notin> seen_hashes st
                 then st\<lparr>deduped := deduped st @ [backup],
                         seen_hashes := insert (content_hash md5 backup) (seen_hashes st)\<rparr>
                 else st)
      in if length (deduped st') \<ge> 10 then st' else backup_loop md5 rest st')"

text \<open>
  The part of \<open>discover\<close> that follows the fetching: deduplication of the pool, the
  fallback when fewer than five candidates are left, and the cut to fifty entries.
\<close>

definition discover_pool :: "(str \<Rightarrow> str) \<Rightarrow> item list \<Rightarrow> item list" where
  "discover_pool md5 pool =
     (let st = dedup_loop md5 pool dedup_init;
          st' = (if length (deduped st) < 5 then backup_loop md5 BACKUP_HEADLINES st else st)
      in take 50 (deduped st'))"

text \<open>
  The fallback as the specification words it: walk the backup list in order, stop when
  the list has ten entries, skip an entry whose fingerprint has been seen, append any
  other and remember its fingerprint.  \<open>n\<close> is the number of entries the list holds.
\<close>

fun backup_fill_spec :: "(str \<Rightarrow> str) \<Rightarrow> str set \<Rightarrow> nat \<Rightarrow> item list \<Rightarrow> item list" where
  "backup_fill_spec md5 seen n [] = []"
| "backup_fill_spec md5 seen n (b # bs) =
     (if n \<ge> 10 then []
      else if content_hash md5 b \<in> seen then backup_fill_spec md5 seen n bs
      else b # backup_fill_spec md5 (insert (content_hash md5 b) seen) (Suc n) bs)"

text \<open>
  The invariant of the deduplication loop: the kept candidates differ pairwise in title,
  in URL and in fingerprint, and the three sets hold what has been kept.
\<close>

definition dedup_inv :: "(str \<Rightarrow> str) \<Rightarrow> dedup_state \<Rightarrow> bool" where
  "dedup_inv md5 st =
     (distinct (map title (deduped st)) \<and> distinct (map url (deduped st))
      \<and> distinct (map (content_hash md5) (deduped st))
      \<and> title ` set (deduped st) \<subseteq> seen_title st
      \<and> url ` set (deduped st) \<subseteq> seen_url st
      \<and> content_hash md5 ` set (deduped st) \<subseteq> seen_hashes st)"

section \<open>SignalEngine\<close>

text \<open>The set \<open>KNOWN_COMPANIES\<close>, its elements listed as the source writes them.\<close>

definition KNOWN_COMPANIES :: "str list" where
  "KNOWN_COMPANIES = map ascii
    [''openai'', ''google'', ''microsoft'', ''meta'', ''facebook'', ''apple'', ''amazon'',
     ''nvidia'', ''tesla'', ''spacex'', ''anthropic'', ''deepmind'', ''huawei'', ''baidu'',
     ''alibaba'', ''tencent'', ''infosys'', ''tcs'', ''wipro'', ''hcl'', ''tech mahindra'',
     ''cognizant'', ''accenture'', ''samsung'', ''sony'', ''intel'', ''amd'', ''qualcomm'',
     ''broadcom'', ''oracle'', ''salesforce'', ''uber'', ''lyft'', ''airbnb'', ''stripe'',
     ''paypal'', ''square'', ''robinhood'', ''coinbase'', ''zoom'', ''slack'', ''spotify'',
     ''netflix'', ''twitter'', ''x corp'', ''linkedin'', ''tiktok'', ''bytedance'', ''snap'',
     ''pinterest'', ''reddit'', ''discord'', ''twitch'', ''epic games'']"

definition ticker_cache :: "(str \<times> str) list" where
  "ticker_cache = map (\<lambda>(k, v). (ascii k, ascii v))
    [(''OpenAI'', ''MSFT''), (''Google'', ''GOOGL''), (''Alphabet'', ''GOOGL''),
     (''Microsoft'', ''MSFT''), (''Meta'', ''META''), (''Nvidia'', ''NVDA''),
     (''Infosys'', ''INFY''), (''TCS'', ''TCS.NS''), (''SAP'', ''SAP'')]"

definition country_emojis :: "(str \<times> str) list" where
  "country_emojis =
    [(ascii ''India'', [0x1F1EE, 0x1F1F3]),
     (ascii ''USA'', [0x1F1FA, 0x1F1F8]),
     (ascii ''China'', [0x1F1E8, 0x1F1F3])]"

text \<open>The dictionary that \<open>enrich\<close> returns.\<close>

record enriched =
  e_company :: str
  e_country :: str
  e_emoji :: str
  e_headline :: str
  e_stock :: str
  e_tag :: str
  e_url :: str

text \<open>
  \<open>sorted(KNOWN_COMPANIES, key=len, reverse=True)\<close>: a stable sort by falling length
  of the set's elements, taken in the order of iteration.
\<close>

definition sorted_companies :: "lib \<Rightarrow> str list" where
  "sorted_companies L = sort_key (\<lambda>k. - int (length k)) (lib_set_order L KNOWN_COMPANIES)"

text \<open>
  The three regular expressions of \<open>enrich\<close>; \<open>[92]\<close> is the backslash.
\<close>

definition company_patterns :: "str list" where
  "company_patterns =
    [ascii ''([A-Z][a-z]+(?:'' @ [92] @ ascii ''s+[A-Z][a-z]+)*)'' @ [92]
       @ ascii ''s+(?:announces|launches|releases|unveils)'',
     ascii ''^([A-Z][a-z]+(?:'' @ [92] @ ascii ''s+[A-Z][a-z]+)*)'' @ [92] @ ascii ''s+'',
     ascii ''([A-Z][a-z]+(?:'' @ [92] @ ascii ''s+[A-Z][a-z]+)*)'s'' @ [92] @ ascii ''s+'']"

definition TechCorp :: str where
  "TechCorp = ascii ''TechCorp''"

text \<open>The loop \<open>for pattern in patterns\<close>; without a usable match the company stays.\<close>

fun pattern_loop :: "lib \<Rightarrow> str list \<Rightarrow> str \<Rightarrow> str \<Rightarrow> str" where
  "pattern_loop L [] ttl company = company"
| "pattern_loop L (pattern # patterns) ttl company =
     (case lib_re_search L pattern ttl of
        None \<Rightarrow> pattern_loop L patterns ttl company
      | Some potential_company \<Rightarrow>
          if length potential_company > 2
             \<and> lower L potential_company \<notin> set (map ascii [''the'', ''new'', ''big'', ''top'', ''best''])
          then potential_company
          else pattern_loop L patterns ttl company)"

definition extract_company :: "lib \<Rightarrow> str \<Rightarrow> str" where
  "extract_company L ttl =
     (let title_lower = lower L ttl;
          company = (case find (\<lambda>known_company. contains title_lower known_company)
                           (sorted_companies L) of
                       Some known_company \<Rightarrow> str_title known_company
                     | None \<Rightarrow> TechCorp)
      in if company = TechCorp then pattern_loop L company_patterns ttl company else company)"

text \<open>
  The quote of a ticker symbol: \<open>quote ticker\<close> is what
  \<open>yf.Ticker(ticker).info.get("regularMarketPrice")\<close> does, raising (\<open>Inl\<close>) or
  returning a price or \<open>None\<close>.
\<close>

definition stock_price :: "lib \<Rightarrow> (str \<Rightarrow> str + real option) \<Rightarrow> str \<Rightarrow> str" where
  "stock_price L quote company =
     (case map_of ticker_cache company of
        None \<Rightarrow> ascii ''N/A''
      | Some ticker \<Rightarrow>
          if ticker = [] then ascii ''N/A''
          else (case quote ticker of
                  Inl e \<Rightarrow> ascii ''N/A''
                | Inr None \<Rightarrow> ascii ''N/A''
                | Inr (Some price) \<Rightarrow>
                    if price \<noteq> 0 then ascii ''$'' @ lib_format_2f L price else ascii ''N/A''))"

definition infer_country :: "lib \<Rightarrow> str \<Rightarrow> str" where
  "infer_country L company =
     (let company_lower = lower L company in
      if contains_any company_lower (map ascii [''infosys'', ''tcs'', ''wipro'', ''hcl''])
      then ascii ''India''
      else if contains_any company_lower
                (map ascii [''huawei'', ''baidu'', ''alibaba'', ''tencent'', ''bytedance''])
      then ascii ''China''
      else ascii ''USA'')"

definition verbs :: "str list" where
  "verbs = map ascii [''shuts down'', ''explodes'', ''quietly builds'', ''replaces'',
                      ''turbo-charges'', ''silently fires'']"

text \<open>
  \<open>random.choice(xs)\<close> yields an element of the list; \<open>r\<close> is the random draw.
\<close>

definition choice :: "nat \<Rightarrow> 'a list \<Rightarrow> 'a" where
  "choice r xs = xs ! (r mod length xs)"

definition em_dash :: str where
  "em_dash = [0x2014]"

definition rewrite_headline :: "lib \<Rightarrow> nat \<Rightarrow> str \<Rightarrow> str \<Rightarrow> str" where
  "rewrite_headline L r company ttl =
     (let title_lower = lower L ttl in
      if contains_any title_lower (map (lower L) verbs) then ttl
      else if \<not> contains_any title_lower
                 (map ascii [''breaks'', ''shocking'', ''massive'', ''huge'', ''major''])
      then (let main_part = (if 58 \<in> set ttl then takeWhile (\<lambda>c. c \<noteq> 58) ttl else ttl)
            in company @ ascii '' '' @ str_title (choice r verbs) @ ascii '' '' @ em_dash
               @ ascii '' '' @ main_part)
      else ttl)"

definition tag_layoff :: str where "tag_layoff = [0x1F534] @ ascii '' Layoff''"
definition tag_growth :: str where "tag_growth = [0x1F7E2] @ ascii '' Growth''"
definition tag_new_tool :: str where "tag_new_tool = [0x1F916] @ ascii '' New Tool''"
definition tag_strategy :: str where "tag_strategy = [0x1F9E0] @ ascii '' Strategy''"

definition sentiment_tag :: "lib \<Rightarrow> str \<Rightarrow> str" where
  "sentiment_tag L ttl =
     (let title_lower = lower L ttl in
      if contains_any title_lower
           (map ascii [''layoff'', ''fire'', ''cut'', ''reduce'', ''close'', ''shut''])
      then tag_layoff
      else if contains_any title_lower
           (map ascii [''funding'', ''raise'', ''growth'', ''launch'', ''hire'', ''expand''])
      then tag_growth
      else if contains_any title_lower
           (map ascii [''ai'', ''tool'', ''app'', ''platform'', ''model''])
      then tag_new_tool
      else tag_strategy)"

text \<open>
  \<open>SignalEngine.enrich\<close>.  \<open>quote\<close> is the quote service and \<open>r\<close> the draw of
  \<open>random.choice(verbs)\<close>.
\<close>

definition enrich :: "lib \<Rightarrow> (str \<Rightarrow> str + real option) \<Rightarrow> nat \<Rightarrow> item \<Rightarrow> enriched" where
  "enrich L quote r itm =
     (let ttl = title itm;
          company = extract_company L ttl;
          country = infer_country L company
      in \<lparr>e_company = company,
          e_country = country,
          e_emoji = (case map_of country_emojis country of Some e \<Rightarrow> e | None \<Rightarrow> [0x1F30D]),
          e_headline = rewrite_headline L r company ttl,
          e_stock = stock_price L quote company,
          e_tag = sentiment_tag L ttl,
          e_url = url itm\<rparr>)"

section \<open>DeliveryEngine\<close>

definition DELAY_BETWEEN_POSTS :: real where
  "DELAY_BETWEEN_POSTS = 30"

definition ellipsis :: str where
  "ellipsis = [0x2026]"

text \<open>The first two statements of \<open>send_post\<close>: \<open>text[:max_len - 10] + "\<dots>"\<close>.\<close>

definition truncate_text :: "str \<Rightarrow> str" where
  "truncate_text text =
     (let max_len = 4096 in
      if length text > max_len then take (max_len - 10) text @ ellipsis else text)"

text \<open>
  The retry loop of \<open>send_post\<close>.  \<open>send a\<close> tells whether the call of
  \<open>send_message\<close> made after \<open>a\<close> failures returns, and \<open>jit a\<close> is the value
  that \<open>random.uniform(0, 3)\<close> yields after that failure.  The result is the returned
  Boolean and the events of the call.
\<close>

function send_loop ::
  "(nat \<Rightarrow> bool) \<Rightarrow> (nat \<Rightarrow> real) \<Rightarrow> str \<Rightarrow> nat \<Rightarrow> int \<Rightarrow> event list \<Rightarrow> bool \<times> event list"
where
  "send_loop send jit text attempts delay tr =
     (if attempts < 3 then
        (if send attempts then (True, tr @ [SendMessage text True])
         else send_loop send jit text (attempts + 1) (delay * 2)
                (tr @ [SendMessage text False, Sleep (of_int delay + jit attempts)]))
      else (False, tr))"
  by pat_completeness auto
termination
  by (relation "measure (\<lambda>(send, jit, text, attempts, delay, tr). 3 - attempts)") auto

declare send_loop.simps [simp del]

definition send_post :: "(nat \<Rightarrow> bool) \<Rightarrow> (nat \<Rightarrow> real) \<Rightarrow> str \<Rightarrow> bool \<times> event list" where
  "send_post send jit text = send_loop send jit (truncate_text text) 0 5 []"

text \<open>
  The loop of \<open>run\<close> over the batch.  The message at position \<open>i\<close> of the batch has
  its own outcomes \<open>send i\<close> and jitters \<open>jit i\<close>.
\<close>

fun run_loop ::
  "(nat \<Rightarrow> nat \<Rightarrow> bool) \<Rightarrow> (nat \<Rightarrow> nat \<Rightarrow> real) \<Rightarrow> nat \<Rightarrow> str list \<Rightarrow> str list \<times> event list
     \<Rightarrow> str list \<times> event list"
where
  "run_loop send jit i [] (failed, tr) = (failed, tr)"
| "run_loop send jit i (msg # msgs) (failed, tr) =
     (let (ok, evs) = send_post (send i) (jit i) msg;
          failed' = (if \<not> ok then failed @ [msg] else failed)
      in run_loop send jit (Suc i) msgs (failed', tr @ evs @ [Sleep DELAY_BETWEEN_POSTS]))"

definition existing_posts :: "failed_store \<Rightarrow> str list" where
  "existing_posts st = (case st of Posts xs \<Rightarrow> xs | _ \<Rightarrow> [])"

definition run ::
  "(nat \<Rightarrow> nat \<Rightarrow> bool) \<Rightarrow> (nat \<Rightarrow> nat \<Rightarrow> real) \<Rightarrow> str list \<Rightarrow> files \<Rightarrow> files \<times> event list"
where
  "run send jit messages fs =
     (let (failed, tr) = run_loop send jit 0 messages ([], []) in
      if failed \<noteq> [] then
        (let existing = existing_posts (failed_file fs) @ failed
         in (fs\<lparr>failed_file := Posts existing\<rparr>, tr @ [WriteFailed existing]))
      else (fs, tr))"

text \<open>
  A message is exhausted when all three calls of \<open>send_message\<close> made for it raise.
\<close>

definition exhausted :: "(nat \<Rightarrow> nat \<Rightarrow> bool) \<Rightarrow> nat \<Rightarrow> bool" where
  "exhausted send k = (\<not> send k 0 \<and> \<not> send k 1 \<and> \<not> send k 2)"

section \<open>Properties of the delivery engine\<close>

lemma send_loop_at_3: "send_loop send jit text 3 d tr = (False, tr)"
  by (subst send_loop.simps) simp

lemma send_loop_at_2:
  "send_loop send jit text 2 d tr =
     (if send 2 then (True, tr @ [SendMessage text True])
      else (False, tr @ [SendMessage text False, Sleep (of_int d + jit 2)]))"
  by (subst send_loop.simps) (simp add: send_loop_at_3)

lemma send_loop_at_1:
  "send_loop send jit text 1 d tr =
     (if send 1 then (True, tr @ [SendMessage text True])
      else send_loop send jit text 2 (d * 2)
             (tr @ [SendMessage text False, Sleep (of_int d + jit 1)]))"
  by (subst send_loop.simps) (simp add: numeral_2_eq_2)

lemma send_loop_at_0:
  "send_loop send jit text 0 d tr =
     (if send 0 then (True, tr @ [SendMessage text True])
      else send_loop send jit text 1 (d * 2)
             (tr @ [SendMessage text False, Sleep (of_int d + jit 0)]))"
  by (subst send_loop.simps) simp

lemma send_loop_unfold_3:
  "send_loop send jit text 0 d [] =
     (if send 0 then (True, [SendMessage text True])
      else if send 1 then
        (True, [SendMessage text False, Sleep (of_int d + jit 0), SendMessage text True])
      else if send 2 then
        (True, [SendMessage text False, Sleep (of_int d + jit 0),
                SendMessage text False, Sleep (of_int (d * 2) + jit 1),
                SendMessage text True])
      else
        (False, [SendMessage text False, Sleep (of_int d + jit 0),
                 SendMessage text False, Sleep (of_int (d * 2) + jit 1),
                 SendMessage text False, Sleep (of_int (d * 2 * 2) + jit 2)]))"
  unfolding send_loop_at_0 send_loop_at_1 send_loop_at_2 by simp

lemma send_post_result: "fst (send_post send jit text) = (send 0 \<or> send 1 \<or> send 2)"
  by (auto simp add: send_post_def send_loop_unfold_3)

lemma send_post_first_event:
  "\<exists>ok rest. snd (send_post send jit text) = SendMessage (truncate_text text) ok # rest"
  by (auto simp add: send_post_def send_loop_unfold_3)

lemma send_post_bodies:
  "SendMessage body ok \<in> set (snd (send_post send jit text)) \<Longrightarrow> body = truncate_text text"
  by (auto simp add: send_post_def send_loop_unfold_3 split: if_splits)

lemma length_truncate_text: "length (truncate_text text) \<le> 4096"
  by (simp add: truncate_text_def ellipsis_def Let_def)

lemma upt_0_Suc_shift: "[0..<Suc n] = 0 # map Suc [0..<n]"
  by (simp add: upt_conv_Cons map_Suc_upt del: upt_Suc)

lemma run_loop_char:
  "run_loop send jit i msgs (failed, tr) =
     (failed @ map (\<lambda>k. msgs ! k)
        (filter (\<lambda>k. \<not> fst (send_post (send (i + k)) (jit (i + k)) (msgs ! k))) [0..<length msgs]),
      tr @ concat (map (\<lambda>k. snd (send_post (send (i + k)) (jit (i + k)) (msgs ! k))
                              @ [Sleep DELAY_BETWEEN_POSTS]) [0..<length msgs]))"
proof (induction msgs arbitrary: i failed tr)
  case Nil
  show ?case by simp
next
  case (Cons m ms)
  show ?case
    by (simp add: Cons.IH upt_0_Suc_shift filter_map comp_def split_beta del: upt_Suc)
qed

text \<open>
  Claim C8.  Every text that \<open>send_post\<close> hands to the transport is the truncated
  input: it has at most 4096 characters, it is the first 4086 characters followed by an
  ellipsis when the input is longer than 4096, and the input itself otherwise.  The
  truncation precedes the first call of the transport, which is always made.
\<close>

theorem send_post_body_bounded:
  "(\<exists>ok rest. snd (send_post send jit text) = SendMessage (truncate_text text) ok # rest)
   \<and> (\<forall>body ok. SendMessage body ok \<in> set (snd (send_post send jit text))
          \<longrightarrow> body = truncate_text text)
   \<and> length (truncate_text text) \<le> 4096
   \<and> (length text > 4096 \<longrightarrow> truncate_text text = take 4086 text @ ellipsis)
   \<and> (length text \<le> 4096 \<longrightarrow> truncate_text text = text)"
proof -
  have "length text > 4096 \<longrightarrow> truncate_text text = take 4086 text @ ellipsis"
    by (simp add: truncate_text_def)
  moreover have "length text \<le> 4096 \<longrightarrow> truncate_text text = text"
    by (simp add: truncate_text_def)
  ultimately show ?thesis
    using send_post_first_event [of send jit "text"] send_post_bodies [of _ _ send jit "text"]
      length_truncate_text [of "text"]
    by blast
qed

theorem send_post_body_bounded_witness:
  "(\<exists>ok rest. snd (send_post (\<lambda>a. True) (\<lambda>a. 0) (replicate 5000 65))
       = SendMessage (replicate 4086 65 @ ellipsis) ok # rest)
   \<and> length (replicate 4086 (65::nat) @ ellipsis) = 4087
   \<and> truncate_text (replicate 5000 65) = replicate 4086 65 @ ellipsis
   \<and> truncate_text (ascii ''short card'') = ascii ''short card''"
  using send_post_body_bounded [of "\<lambda>a. True" "\<lambda>a. 0" "replicate 5000 65"]
    send_post_body_bounded [of "\<lambda>a. True" "\<lambda>a. 0" "ascii ''short card''"]
  by (simp add: truncate_text_def ellipsis_def ascii_def)

text \<open>
  Claim C3.  When the first two calls of the transport raise and the third returns,
  \<open>send_post\<close> returns \<open>True\<close>, \<open>run\<close> leaves the failure log alone, and the
  wait after the first failure (5 seconds plus jitter) is strictly shorter than the wait
  after the second (10 seconds plus jitter), for jitters between 0 and 3.
\<close>

theorem send_post_third_attempt_succeeds:
  assumes "\<not> send 0" and "\<not> send 1" and "send 2"
    and "0 \<le> jit 0" and "jit 0 \<le> 3" and "0 \<le> jit 1" and "jit 1 \<le> 3"
  shows "send_post send jit text =
           (True, [SendMessage (truncate_text text) False, Sleep (5 + jit 0),
                   SendMessage (truncate_text text) False, Sleep (10 + jit 1),
                   SendMessage (truncate_text text) True])
         \<and> 5 + jit 0 < 10 + jit 1
         \<and> run (\<lambda>i. send) (\<lambda>i. jit) [text] fs =
             (fs, snd (send_post send jit text) @ [Sleep DELAY_BETWEEN_POSTS])"
proof -
  have sp: "send_post send jit text =
           (True, [SendMessage (truncate_text text) False, Sleep (5 + jit 0),
                   SendMessage (truncate_text text) False, Sleep (10 + jit 1),
                   SendMessage (truncate_text text) True])"
    using assms(1-3) by (simp add: send_post_def send_loop_unfold_3)
  have "5 + jit 0 < 10 + jit 1"
    using assms(5,6) by linarith
  moreover have "run (\<lambda>i. send) (\<lambda>i. jit) [text] fs =
             (fs, snd (send_post send jit text) @ [Sleep DELAY_BETWEEN_POSTS])"
    by (simp add: run_def sp)
  ultimately show ?thesis using sp by simp
qed

theorem send_post_third_attempt_succeeds_witness:
  "send_post (\<lambda>a. a = 2) (\<lambda>a. if a = 0 then 3 else 0) (ascii ''card'') =
     (True, [SendMessage (ascii ''card'') False, Sleep 8,
             SendMessage (ascii ''card'') False, Sleep 10,
             SendMessage (ascii ''card'') True])
   \<and> (8::real) < 10"
  using send_post_third_attempt_succeeds
    [of "\<lambda>a. a = 2" "\<lambda>a. if a = 0 then 3 else 0" "ascii ''card''"]
  by (simp add: truncate_text_def ascii_def)

lemma send_post_exhausted: "(\<not> fst (send_post (send k) (jit k) m)) = exhausted send k"
  by (simp add: send_post_result exhausted_def)

lemma run_char:
  "run send jit msgs fs =
     (let failed = map (\<lambda>k. msgs ! k) (filter (exhausted send) [0..<length msgs]);
          tr = concat (map (\<lambda>k. snd (send_post (send k) (jit k) (msgs ! k))
                                   @ [Sleep DELAY_BETWEEN_POSTS]) [0..<length msgs])
      in if failed \<noteq> [] then
           (fs\<lparr>failed_file := Posts (existing_posts (failed_file fs) @ failed)\<rparr>,
            tr @ [WriteFailed (existing_posts (failed_file fs) @ failed)])
         else (fs, tr))"
  by (simp add: run_def run_loop_char send_post_exhausted Let_def)

lemma length_filter_eq_distinct:
  "distinct xs \<Longrightarrow> length (filter (\<lambda>k. k = i) xs) = (if i \<in> set xs then 1 else 0)"
  by (induction xs) auto

text \<open>
  Claim C4.  A message whose three calls all raise is appended to the failure log once
  (the log grows by the exhausted messages of the batch, each position once, in order),
  the trace of the run consists of the events of \<open>send_post\<close> for every message of
  the batch in order, so every later message is attempted, and the run ends by writing
  the log.
\<close>

theorem run_exhausted_message_logged_once:
  assumes "i < length msgs" and "exhausted send i"
  shows "fst (run send jit msgs fs) =
           fs\<lparr>failed_file := Posts (existing_posts (failed_file fs)
              @ map (\<lambda>k. msgs ! k) (filter (exhausted send) [0..<length msgs]))\<rparr>
         \<and> length (filter (\<lambda>k. k = i) (filter (exhausted send) [0..<length msgs])) = 1
         \<and> snd (run send jit msgs fs) =
             concat (map (\<lambda>k. snd (send_post (send k) (jit k) (msgs ! k))
                                 @ [Sleep DELAY_BETWEEN_POSTS]) [0..<length msgs])
             @ [WriteFailed (existing_posts (failed_file fs)
                  @ map (\<lambda>k. msgs ! k) (filter (exhausted send) [0..<length msgs]))]
         \<and> (\<forall>j<length msgs. \<exists>ok rest. snd (send_post (send j) (jit j) (msgs ! j))
                = SendMessage (truncate_text (msgs ! j)) ok # rest)"
proof -
  have mem: "i \<in> set (filter (exhausted send) [0..<length msgs])"
    using assms by simp
  then have ne: "map (\<lambda>k. msgs ! k) (filter (exhausted send) [0..<length msgs]) \<noteq> []"
    by (metis empty_iff list.set(1) map_is_Nil_conv)
  have once: "length (filter (\<lambda>k. k = i) (filter (exhausted send) [0..<length msgs])) = 1"
  proof -
    have "distinct (filter (exhausted send) [0..<length msgs])" by simp
    from length_filter_eq_distinct [OF this, of i] mem show ?thesis by simp
  qed
  show ?thesis
    using ne once send_post_first_event by (simp add: run_char Let_def)
qed

theorem run_exhausted_message_logged_once_witness:
  "fst (run (\<lambda>k a. k \<noteq> 1) (\<lambda>k a. 0) [ascii ''a'', ascii ''b'', ascii ''c'']
          \<lparr>cache_file = None, failed_file = Posts [ascii ''old'']\<rparr>)
     = \<lparr>cache_file = None, failed_file = Posts [ascii ''old'', ascii ''b'']\<rparr>
   \<and> filter (exhausted (\<lambda>k a. k \<noteq> 1)) [0..<3] = [1]"
proof -
  have up: "[0..<3] = [0, 1, 2::nat]"
    by (simp add: upt_conv_Cons)
  have ex: "exhausted (\<lambda>k a. k \<noteq> (1::nat)) 1"
    by (simp add: exhausted_def)
  show ?thesis
    using run_exhausted_message_logged_once [of 1 "[ascii ''a'', ascii ''b'', ascii ''c'']"
        "\<lambda>k a. k \<noteq> 1" "\<lambda>k a. 0" "\<lparr>cache_file = None, failed_file = Posts [ascii ''old'']\<rparr>", OF _ ex]
    by (simp add: up exhausted_def existing_posts_def)
qed

section \<open>Properties of the deduplication and the fallback\<close>

lemma dedup_loop_inv: "dedup_inv md5 st \<Longrightarrow> dedup_inv md5 (dedup_loop md5 pool st)"
proof (induction pool arbitrary: st)
  case Nil
  then show ?case by simp
next
  case (Cons itm pool)
  show ?case
  proof (cases "title itm \<in> seen_title st \<or> url itm \<in> seen_url st
         \<or> content_hash md5 itm \<in> seen_hashes st")
    case True
    then show ?thesis using Cons by simp
  next
    case False
    have "dedup_inv md5 \<lparr>seen_title = insert (title itm) (seen_title st),
              seen_url = insert (url itm) (seen_url st),
              seen_hashes = insert (content_hash md5 itm) (seen_hashes st),
              deduped = deduped st @ [itm]\<rparr>"
      using Cons.prems False by (auto simp add: dedup_inv_def)
    from Cons.IH [OF this] False show ?thesis by simp
  qed
qed

lemma dedup_loop_subseq:
  "\<exists>ys. deduped (dedup_loop md5 pool st) = deduped st @ ys \<and> subseq ys pool"
proof (induction pool arbitrary: st)
  case Nil
  then show ?case by simp
next
  case (Cons itm pool)
  show ?case
  proof (cases "title itm \<in> seen_title st \<or> url itm \<in> seen_url st
         \<or> content_hash md5 itm \<in> seen_hashes st")
    case True
    then show ?thesis using Cons [of st] by auto
  next
    case False
    let ?st = "\<lparr>seen_title = insert (title itm) (seen_title st),
              seen_url = insert (url itm) (seen_url st),
              seen_hashes = insert (content_hash md5 itm) (seen_hashes st),
              deduped = deduped st @ [itm]\<rparr>"
    from Cons [of ?st] obtain ys where
      "deduped (dedup_loop md5 pool ?st) = deduped ?st @ ys" "subseq ys pool" by blast
    then have "deduped (dedup_loop md5 (itm # pool) st) = deduped st @ (itm # ys)
        \<and> subseq (itm # ys) (itm # pool)"
      using False by simp
    then show ?thesis by blast
  qed
qed

lemma dedup_stage_unique:
  "distinct (map title (deduped (dedup_loop md5 pool dedup_init)))
   \<and> distinct (map url (deduped (dedup_loop md5 pool dedup_init)))
   \<and> distinct (map (content_hash md5) (deduped (dedup_loop md5 pool dedup_init)))
   \<and> subseq (deduped (dedup_loop md5 pool dedup_init)) pool"
proof -
  have "dedup_inv md5 dedup_init" by (simp add: dedup_inv_def dedup_init_def)
  from dedup_loop_inv [OF this, of pool] dedup_loop_subseq [of md5 pool dedup_init]
  show ?thesis by (auto simp add: dedup_inv_def dedup_init_def)
qed

lemma backup_fill_spec_full: "10 \<le> n \<Longrightarrow> backup_fill_spec md5 seen n bs = []"
  by (cases bs) auto

lemma backup_loop_spec:
  "length (deduped st) < 10 \<Longrightarrow>
   deduped (backup_loop md5 bs st)
     = deduped st @ backup_fill_spec md5 (seen_hashes st) (length (deduped st)) bs"
proof (induction bs arbitrary: st)
  case Nil
  then show ?case by simp
next
  case (Cons b bs)
  show ?case
  proof (cases "content_hash md5 b \<in> seen_hashes st")
    case True
    then show ?thesis using Cons by simp
  next
    case False
    let ?st = "st\<lparr>deduped := deduped st @ [b],
                   seen_hashes := insert (content_hash md5 b) (seen_hashes st)\<rparr>"
    show ?thesis
    proof (cases "length (deduped ?st) \<ge> 10")
      case True
      then show ?thesis using False Cons.prems by (simp add: backup_fill_spec_full Let_def)
    next
      case False2: False
      then have "length (deduped ?st) < 10" by simp
      from Cons.IH [OF this] False False2 Cons.prems show ?thesis by (simp add: Let_def)
    qed
  qed
qed

lemma backup_fill_spec_length:
  "n \<le> 10 \<Longrightarrow> n + length (backup_fill_spec md5 seen n bs) \<le> 10"
proof (induction bs arbitrary: seen n)
  case Nil
  then show ?case by simp
next
  case (Cons b bs)
  show ?case
  proof (cases "n \<ge> 10")
    case True
    then show ?thesis using Cons.prems by simp
  next
    case False
    then have "Suc n \<le> 10" by simp
    from Cons.IH [OF this, of "insert (content_hash md5 b) seen"] Cons.IH [OF Cons.prems, of seen]
    show ?thesis using False by simp
  qed
qed

lemma discover_backup_fallback_aux:
  "length (deduped (dedup_loop md5 pool dedup_init)) < 5 \<Longrightarrow>
     discover_pool md5 pool =
        deduped (dedup_loop md5 pool dedup_init)
        @ backup_fill_spec md5 (seen_hashes (dedup_loop md5 pool dedup_init))
            (length (deduped (dedup_loop md5 pool dedup_init))) BACKUP_HEADLINES
      \<and> length (discover_pool md5 pool) \<le> 10"
proof -
  let ?D = "dedup_loop md5 pool dedup_init"
  let ?fill = "backup_fill_spec md5 (seen_hashes ?D) (length (deduped ?D)) BACKUP_HEADLINES"
  assume less: "length (deduped ?D) < 5"
  have "deduped (backup_loop md5 BACKUP_HEADLINES ?D) = deduped ?D @ ?fill"
    using less by (intro backup_loop_spec) simp
  moreover have "length (deduped ?D) + length ?fill \<le> 10"
    using less by (intro backup_fill_spec_length) simp
  ultimately show ?thesis using less by (simp add: discover_pool_def Let_def)
qed

text \<open>
  Claim C2.  When fewer than five candidates survive the deduplication, the result is
  the deduplicated list followed by the backup entries as the specification selects
  them (in order, skipping the entries whose fingerprint has been seen, stopping at ten
  entries or at the end of the backup list), and it holds at most ten entries.  When five
  or more survive, the result is the deduplicated list, cut to fifty entries, with no
  backup entry appended.
\<close>

theorem discover_backup_fallback:
  "(length (deduped (dedup_loop md5 pool dedup_init)) < 5 \<longrightarrow>
      discover_pool md5 pool =
        deduped (dedup_loop md5 pool dedup_init)
        @ backup_fill_spec md5 (seen_hashes (dedup_loop md5 pool dedup_init))
            (length (deduped (dedup_loop md5 pool dedup_init))) BACKUP_HEADLINES
      \<and> length (discover_pool md5 pool) \<le> 10)
   \<and> (5 \<le> length (deduped (dedup_loop md5 pool dedup_init)) \<longrightarrow>
      discover_pool md5 pool = take 50 (deduped (dedup_loop md5 pool dedup_init)))"
proof -
  let ?D = "dedup_loop md5 pool dedup_init"
  let ?fill = "backup_fill_spec md5 (seen_hashes ?D) (length (deduped ?D)) BACKUP_HEADLINES"
  have "discover_pool md5 pool = deduped ?D @ ?fill \<and> length (discover_pool md5 pool) \<le> 10"
    if less: "length (deduped ?D) < 5"
  proof -
    have "deduped (backup_loop md5 BACKUP_HEADLINES ?D) = deduped ?D @ ?fill"
      using less by (intro backup_loop_spec) simp
    moreover have "length (deduped ?D) + length ?fill \<le> 10"
      using less by (intro backup_fill_spec_length) simp
    ultimately show ?thesis using less by (simp add: discover_pool_def Let_def)
  qed
  moreover have "discover_pool md5 pool = take 50 (deduped ?D)" if "5 \<le> length (deduped ?D)"
    using that by (simp add: discover_pool_def Let_def)
  ultimately show ?thesis by blast
qed

lemma BACKUP_HEADLINES_unfold:
  "map (\<lambda>b. (title b, url b)) BACKUP_HEADLINES =
    [(ascii ''OpenAI Quietly Builds Next-Gen AI Infrastructure to Challenge Google'',
      ascii ''https://techcrunch.com/ai''),
     (ascii ''India's IT Giants Eye $50B AI Market Amid Global Tech Shifts'',
      ascii ''https://economictimes.com/tech''),
     (ascii ''China's Baidu Turbo-Charges Dragon AI to Compete with ChatGPT'',
      ascii ''https://technode.com/ai''),
     (ascii ''Meta Silently Fires 2,000 Engineers While Doubling AI Investment'',
      ascii ''https://theverge.com/meta''),
     (ascii ''Microsoft Replaces Human Customer Service with GPT-Powered Bots'',
      ascii ''https://venturebeat.com/ai''),
     (ascii ''Nvidia Explodes Past $2 Trillion Valuation on AI Chip Demand'',
      ascii ''https://wired.com/nvidia''),
     (ascii ''TCS Shuts Down Legacy Systems, Goes All-In on AI Automation'',
      ascii ''https://inc42.com/tcs''),
     (ascii ''Tesla's FSD AI Quietly Replaces Human Drivers in Beta Cities'',
      ascii ''https://futurism.com/tesla'')]"
  by (simp add: BACKUP_HEADLINES_def backup_entry_def)

theorem discover_backup_fallback_witness:
  "discover_pool (\<lambda>s. s) [] = BACKUP_HEADLINES
   \<and> discover_pool (\<lambda>s. s) (map (\<lambda>n. candidate [n] [n]) [1, 2, 3, 4, 5])
       = map (\<lambda>n. candidate [n] [n]) [1, 2, 3, 4, 5]"
  using discover_backup_fallback [of "\<lambda>s. s" "[]"]
    discover_backup_fallback [of "\<lambda>s. s" "map (\<lambda>n. candidate [n] [n]) [1, 2, 3, 4, 5]"]
  by (simp add: dedup_init_def candidate_def content_hash_def BACKUP_HEADLINES_def
      backup_entry_def ascii_def)

text \<open>
  Claim C1.  The deduplication loop keeps no two candidates with the same title, URL or
  fingerprint and keeps them in the order of the pool (\<open>dedup_stage_unique\<close>).  The
  fallback compares fingerprints only.  For the pool that holds one candidate with the
  title of the first backup headline and another URL, and for every hash function that
  tells the two concatenations apart (as MD5 does), the first backup headline is
  appended and the result holds the same title twice.
\<close>

theorem discover_pool_repeats_backup_title:
  assumes "md5 (ascii ''OpenAI Quietly Builds Next-Gen AI Infrastructure to Challenge Google''
                @ ascii ''https://example.com/a'')
           \<noteq> md5 (ascii ''OpenAI Quietly Builds Next-Gen AI Infrastructure to Challenge Google''
                @ ascii ''https://techcrunch.com/ai'')"
  shows "take 2 (discover_pool md5
           [candidate (ascii ''OpenAI Quietly Builds Next-Gen AI Infrastructure to Challenge Google'')
              (ascii ''https://example.com/a'')])
         = [candidate (ascii ''OpenAI Quietly Builds Next-Gen AI Infrastructure to Challenge Google'')
              (ascii ''https://example.com/a''),
            backup_entry ''OpenAI Quietly Builds Next-Gen AI Infrastructure to Challenge Google''
              ''https://techcrunch.com/ai'' ''OpenAI'']
         \<and> \<not> distinct (map title (discover_pool md5
           [candidate (ascii ''OpenAI Quietly Builds Next-Gen AI Infrastructure to Challenge Google'')
              (ascii ''https://example.com/a'')]))"
proof -
  let ?t = "ascii ''OpenAI Quietly Builds Next-Gen AI Infrastructure to Challenge Google''"
  let ?c = "candidate ?t (ascii ''https://example.com/a'')"
  let ?b = "backup_entry ''OpenAI Quietly Builds Next-Gen AI Infrastructure to Challenge Google''
              ''https://techcrunch.com/ai'' ''OpenAI''"
  let ?D = "dedup_loop md5 [?c] dedup_init"
  have D: "deduped ?D = [?c]" "seen_hashes ?D = {content_hash md5 ?c}"
    by (simp_all add: dedup_init_def)
  have fresh: "content_hash md5 ?b \<notin> {content_hash md5 ?c}"
    using assms by (simp add: content_hash_def candidate_def backup_entry_def)
  obtain bs where bs: "BACKUP_HEADLINES = ?b # bs"
    by (simp add: BACKUP_HEADLINES_def)
  have len: "length (deduped ?D) < 5"
    unfolding D by simp
  have "discover_pool md5 [?c] =
          deduped ?D @ backup_fill_spec md5 (seen_hashes ?D) (length (deduped ?D)) BACKUP_HEADLINES"
    using discover_backup_fallback_aux [OF len] by (rule conjunct1)
  then have "discover_pool md5 [?c] =
          [?c] @ backup_fill_spec md5 {content_hash md5 ?c} (length [?c]) (?b # bs)"
    unfolding D bs .
  then have "discover_pool md5 [?c] =
          ?c # ?b # backup_fill_spec md5 (insert (content_hash md5 ?b) {content_hash md5 ?c})
                      (Suc (Suc 0)) bs"
    using fresh by simp
  moreover have "title ?c = title ?b"
    by (simp add: candidate_def backup_entry_def)
  ultimately show ?thesis by simp
qed

theorem discover_pool_repeats_backup_title_witness:
  "ascii ''OpenAI Quietly Builds Next-Gen AI Infrastructure to Challenge Google''
     @ ascii ''https://example.com/a''
   \<noteq> ascii ''OpenAI Quietly Builds Next-Gen AI Infrastructure to Challenge Google''
     @ ascii ''https://techcrunch.com/ai''
   \<and> \<not> distinct (map title (discover_pool (\<lambda>s. s)
           [candidate (ascii ''OpenAI Quietly Builds Next-Gen AI Infrastructure to Challenge Google'')
              (ascii ''https://example.com/a'')]))"
  using discover_pool_repeats_backup_title [of "\<lambda>s. s"]
  by (simp add: ascii_def)

end
